theory Spec2Isabelle
  imports Main
begin

section \<open>The command builder of azd: \<open>cli/azd/pkg/commands/builder.go\<close>\<close>

text \<open>
  The file holds three functions: \<open>Build\<close>, which makes a cobra command around an action,
  \<open>runCmdWithTelemetry\<close>, which brackets the action in a tracing span, and
  \<open>createRootContext\<close>, which registers the services of one invocation in the context.
  Every call that leaves the file (cobra, colorable, isatty, azidentity, the packages of
  azd itself) is either a constructor that only stores its arguments, modelled as the
  datatype of those arguments, or a value read from the process, taken from the record
  \<open>Env\<close>.
\<close>

subsection \<open>Values\<close>

text \<open>
  An \<open>io.Reader\<close> or \<open>io.Writer\<close> value. The three files of the process are told apart
  from every other stream (\<open>OtherStream\<close>, numbered). \<open>NonColorable w\<close> is the value of
  \<open>colorable.NewNonColorable(w)\<close>, a wrapper that removes escape sequences, and
  \<open>ColorableStdout\<close> the value of \<open>colorable.NewColorableStdout()\<close>. Go compares
  interface values by dynamic type and pointer, so the wrapper \<open>NonColorable w\<close> never
  equals \<open>os.Stdout\<close>. On Windows \<open>NewColorableStdout\<close> gives a translating writer; on
  the other platforms the library gives \<open>os.Stdout\<close> back. The source does not look at
  the value again, and no theorem below needs \<open>ColorableStdout\<close> and \<open>OsStdout\<close> to differ.
\<close>

datatype stream =
    OsStdin
  | OsStdout
  | OsStderr
  | OtherStream nat
  | NonColorable stream
  | ColorableStdout

text \<open>A Go \<open>error\<close>; \<open>Errorf_w p e\<close> is \<open>fmt.Errorf(p + "%w", e)\<close>.\<close>

datatype error =
    NewError string
  | Errorf_w string error

text \<open>A function of the source either returns or panics.\<close>

datatype 'a result =
    Returned 'a
  | Panicked string

datatype AzdContext = AzdContext string

datatype Credential = AzureCLICredential

datatype Formatter = Formatter string

datatype Code = codes_Unset | codes_Error | codes_Ok

text \<open>The fields of \<open>internal.GlobalCommandOptions\<close> that the file reads.\<close>

record GlobalCommandOptions =
  EnableDebugLogging :: bool
  EnableTelemetry :: bool
  NoPrompt :: bool

record BuildOptions =
  Long :: string
  Aliases :: "string list"
  DisableCmdUsageEvent :: bool

datatype CommandRunner = NewCommandRunner stream stream stream

datatype NewAzCliArgs = NewAzCliArgs (EnableDebug: bool) (ArgsEnableTelemetry: bool) (ArgsCommandRunner: CommandRunner)

datatype AzCli = NewAzCli NewAzCliArgs

datatype ConsoleHandles = ConsoleHandles (Stdin: stream) (Stdout: stream) (Stderr: stream)

text \<open>
  \<open>input.NewConsole\<close> with its four arguments in the order of the call: the negated
  \<open>NoPrompt\<close> option, \<open>isTerminal\<close>, the handles and the formatter (nil is \<open>None\<close>).
\<close>

datatype Console = NewConsole (prompting: bool) (consoleIsTerminal: bool) (handles: ConsoleHandles) (consoleFormatter: "Formatter option")

subsection \<open>The context\<close>

text \<open>
  The values that the file registers in the context, one constructor for each kind of
  service, and the span that the tracer puts there.
\<close>

datatype ContextValue =
    AzdContextValue AzdContext
  | CommandOptionsValue GlobalCommandOptions
  | InstalledCheckCacheValue
  | CommandRunnerValue CommandRunner
  | CredentialsValue Credential
  | AzCliValue AzCli
  | FormatterValue Formatter
  | WriterValue stream
  | ConsoleValue Console
  | SpanValue string

text \<open>
  Modelled from the spec: \<open>context.Context\<close> and the \<open>With...\<close> functions of the
  packages azdcontext, internal, tools, exec, identity, azcli, output and input are not
  in this file. The spec (4.1) says that each registers a value of its kind in a new
  context above the old one, whose entries stay. A context is the list of its values,
  the newest first.
\<close>

type_synonym Context = "ContextValue list"

definition WithAzdContext :: "Context \<Rightarrow> AzdContext \<Rightarrow> Context" where
  "WithAzdContext ctx a = AzdContextValue a # ctx"

definition WithCommandOptions :: "Context \<Rightarrow> GlobalCommandOptions \<Rightarrow> Context" where
  "WithCommandOptions ctx opts = CommandOptionsValue opts # ctx"

definition WithInstalledCheckCache :: "Context \<Rightarrow> Context" where
  "WithInstalledCheckCache ctx = InstalledCheckCacheValue # ctx"

definition WithCommandRunner :: "Context \<Rightarrow> CommandRunner \<Rightarrow> Context" where
  "WithCommandRunner ctx r = CommandRunnerValue r # ctx"

definition WithCredentials :: "Context \<Rightarrow> Credential \<Rightarrow> Context" where
  "WithCredentials ctx c = CredentialsValue c # ctx"

definition WithAzCli :: "Context \<Rightarrow> AzCli \<Rightarrow> Context" where
  "WithAzCli ctx c = AzCliValue c # ctx"

definition WithFormatter :: "Context \<Rightarrow> Formatter \<Rightarrow> Context" where
  "WithFormatter ctx f = FormatterValue f # ctx"

definition WithWriter :: "Context \<Rightarrow> stream \<Rightarrow> Context" where
  "WithWriter ctx w = WriterValue w # ctx"

definition WithConsole :: "Context \<Rightarrow> Console \<Rightarrow> Context" where
  "WithConsole ctx c = ConsoleValue c # ctx"

text \<open>
  Modelled from the spec: the lookups of the packages output and input are not in this
  file. The spec (3, 4.1) says that a lookup gives the value of its kind that was
  registered last, and tells when there is none.
\<close>

fun GetWriter :: "Context \<Rightarrow> stream option" where
  "GetWriter [] = None"
| "GetWriter (WriterValue w # ctx) = Some w"
| "GetWriter (v # ctx) = GetWriter ctx"

fun GetConsole :: "Context \<Rightarrow> Console option" where
  "GetConsole [] = None"
| "GetConsole (ConsoleValue c # ctx) = Some c"
| "GetConsole (v # ctx) = GetConsole ctx"

subsection \<open>The cobra command\<close>

datatype Flag = Flag (flagName: string) (shorthand: string) (defValue: string) (usage: string)

text \<open>
  The state of a \<open>cobra.Command\<close> that the file reads or writes. \<open>Use\<close>, \<open>Short\<close>, \<open>Long\<close>
  and \<open>Aliases\<close> are the fields that \<open>Build\<close> sets; \<open>Flags\<close> and \<open>PersistentFlags\<close> the two
  flag sets; \<open>flagValues\<close> the values parsed from the command line; \<open>InOrStdin\<close>,
  \<open>OutOrStdout\<close>, \<open>ErrOrStderr\<close> and \<open>Context\<close> what the methods of these names return
  for the command. A command and its parent make the chain that \<open>CommandPath\<close> walks.
\<close>

record CommandFields =
  Use :: string
  Short :: string
  Long :: string
  Aliases :: "string list"
  Flags :: "Flag list"
  PersistentFlags :: "Flag list"
  flagValues :: "(string \<times> string) list"
  InOrStdin :: stream
  OutOrStdout :: stream
  ErrOrStderr :: stream
  Context :: Context

datatype Command = Command (state: CommandFields) (parent: "Command option")

text \<open>
  Modelled from the spec: \<open>Name\<close> and \<open>CommandPath\<close> are methods of cobra. The comment in
  \<open>runCmdWithTelemetry\<close> and the spec (4.3) say that the path is made of the \<open>Use\<close>
  member of each command up to the root, the ancestors joined by a separator; cobra
  takes of each \<open>Use\<close> the first word and joins with one space.
\<close>

definition Name :: "CommandFields \<Rightarrow> string" where
  "Name f = takeWhile (\<lambda>c. c \<noteq> CHR '' '') (Use f)"

fun CommandPath :: "Command \<Rightarrow> string" where
  "CommandPath (Command f None) = Name f"
| "CommandPath (Command f (Some p)) = CommandPath p @ '' '' @ Name f"

text \<open>The \<open>Use\<close> members from the root down to the command.\<close>

fun UseChain :: "Command \<Rightarrow> string list" where
  "UseChain (Command f None) = [Use f]"
| "UseChain (Command f (Some p)) = UseChain p @ [Use f]"

subsection \<open>The action and the process\<close>

record Action =
  Run :: "Context \<Rightarrow> Command \<Rightarrow> string list \<Rightarrow> AzdContext option \<Rightarrow> error option"
  SetupFlags :: "Flag list \<Rightarrow> Flag list \<Rightarrow> Flag list \<times> Flag list"

text \<open>
  What one invocation reads from outside the file: the results of
  \<open>azdcontext.NewAzdContext()\<close>, \<open>azidentity.NewAzureCLICredential(nil)\<close> and
  \<open>output.GetCommandFormatter(cmd)\<close>, the environment variables, whether the descriptors
  of stdin and stdout are terminals (\<open>isatty.IsTerminal\<close>), and the function
  \<open>events.GetCommandEventName\<close>.
\<close>

record Env =
  NewAzdContext :: "error + AzdContext"
  NewAzureCLICredential :: "error + Credential"
  GetCommandFormatter :: "Command \<Rightarrow> error + Formatter option"
  environ :: "string \<Rightarrow> string option"
  stdinIsTerminal :: bool
  stdoutIsTerminal :: bool
  GetCommandEventName :: "string \<Rightarrow> string"

text \<open>\<open>os.Getenv\<close>: the value of the variable, empty when it is not set.\<close>

definition Getenv :: "Env \<Rightarrow> string \<Rightarrow> string" where
  "Getenv env k = (case environ env k of None \<Rightarrow> [] | Some v \<Rightarrow> v)"

text \<open>
  What an invocation does that can be seen from outside: the operations on the span and
  the call of the action, in the order they happen.
\<close>

datatype Effect =
    SpanStart string
  | ActionRun Context "string list" "AzdContext option"
  | SpanSetStatus string Code string
  | SpanEnd string

subsection \<open>createRootContext\<close>

text \<open>
  \<open>rootOptions\<close> is a pointer in the source; \<open>None\<close> is nil, and the dereference
  \<open>*rootOptions\<close> then panics. The three results are the context, the azd context (nil is
  \<open>None\<close>) and the error (nil is \<open>None\<close>).
\<close>

definition createRootContext ::
  "Env \<Rightarrow> Context \<Rightarrow> Command \<Rightarrow> GlobalCommandOptions option
    \<Rightarrow> (Context \<times> AzdContext option \<times> error option) result" where
  "createRootContext env ctx cmd rootOptions =
    (case NewAzdContext env of
       Inl err \<Rightarrow> Returned (ctx, None, Some (Errorf_w ''creating context: '' err))
     | Inr azdCtx \<Rightarrow>
        (let ctx = WithAzdContext ctx azdCtx in
         case rootOptions of
           None \<Rightarrow> Panicked ''invalid memory address or nil pointer dereference''
         | Some opts \<Rightarrow>
            (let ctx = WithCommandOptions ctx opts;
                 ctx = WithInstalledCheckCache ctx;
                 runner = NewCommandRunner (InOrStdin (state cmd)) (OutOrStdout (state cmd))
                            (ErrOrStderr (state cmd));
                 ctx = WithCommandRunner ctx runner;
                 azCliArgs = NewAzCliArgs (EnableDebugLogging opts) (EnableTelemetry opts) runner
             in
             case NewAzureCLICredential env of
               Inl err \<Rightarrow> Panicked ''failed creating azure cli credential''
             | Inr credentials \<Rightarrow>
                (let ctx = WithCredentials ctx credentials;
                     azCli = NewAzCli azCliArgs;
                     ctx = WithAzCli ctx azCli
                 in
                 case GetCommandFormatter env cmd of
                   Inl err \<Rightarrow> Returned (ctx, None, Some err)
                 | Inr formatter \<Rightarrow>
                    (let ctx = (case formatter of None \<Rightarrow> ctx | Some f \<Rightarrow> WithFormatter ctx f);
                         writer = OutOrStdout (state cmd);
                         writer = (if Getenv env ''NO_COLOR'' \<noteq> [] then NonColorable writer
                                   else writer);
                         writer = (if writer = OsStdout then ColorableStdout else writer);
                         ctx = WithWriter ctx writer;
                         isTerminal = (OutOrStdout (state cmd) = OsStdout \<and>
                           InOrStdin (state cmd) = OsStdin \<and> stdinIsTerminal env \<and>
                           stdoutIsTerminal env);
                         console = NewConsole (\<not> NoPrompt opts) isTerminal
                           (ConsoleHandles (InOrStdin (state cmd)) (OutOrStdout (state cmd))
                              (ErrOrStderr (state cmd)))
                           formatter;
                         ctx = WithConsole ctx console
                     in Returned (ctx, Some azdCtx, None))))))"

subsection \<open>runCmdWithTelemetry\<close>

text \<open>
  \<open>telemetry.GetTracer().Start(ctx, name)\<close> gives a context that carries the span, and the
  span, which is known by its name here. The functions thread the list of effects.
\<close>

definition TracerStart :: "Context \<Rightarrow> string \<Rightarrow> Effect list \<Rightarrow> (Context \<times> string) \<times> Effect list" where
  "TracerStart ctx name tr = ((SpanValue name # ctx, name), tr @ [SpanStart name])"

definition runCmdWithTelemetry ::
  "Env \<Rightarrow> Context \<Rightarrow> Command \<Rightarrow> (Context \<Rightarrow> Effect list \<Rightarrow> error option \<times> Effect list)
    \<Rightarrow> Effect list \<Rightarrow> error option \<times> Effect list" where
  "runCmdWithTelemetry env ctx cmd runCmd tr =
    (case TracerStart ctx (GetCommandEventName env (CommandPath cmd)) tr of
       ((spanCtx, span), tr) \<Rightarrow>
        (case runCmd spanCtx tr of
           (err, tr) \<Rightarrow>
            (let tr = (if err \<noteq> None then tr @ [SpanSetStatus span codes_Error ''UnknownError'']
                       else tr)
             in (err, tr @ [SpanEnd span]))))"

subsection \<open>Build\<close>

text \<open>
  The command that \<open>Build\<close> returns, and its \<open>RunE\<close>: cobra calls it with the command as it
  is at the invocation and with the positional arguments. It gives what the handler
  returns, or the panic, and the effects of the invocation.
\<close>

record BuiltCommand =
  command :: Command
  RunE :: "Env \<Rightarrow> Command \<Rightarrow> string list \<Rightarrow> error option result \<times> Effect list"

definition Build ::
  "Action \<Rightarrow> GlobalCommandOptions option \<Rightarrow> string \<Rightarrow> string \<Rightarrow> BuildOptions option
    \<Rightarrow> BuiltCommand" where
  "Build action rootOptions use short buildOptions =
    (let buildOptions = (case buildOptions of
            None \<Rightarrow> \<lparr>BuildOptions.Long = [], BuildOptions.Aliases = [], DisableCmdUsageEvent = False\<rparr>
          | Some b \<Rightarrow> b);
         f = \<lparr>Use = use, Short = short, Long = BuildOptions.Long buildOptions,
              Aliases = BuildOptions.Aliases buildOptions, Flags = [], PersistentFlags = [],
              flagValues = [], InOrStdin = OsStdin, OutOrStdout = OsStdout,
              ErrOrStderr = OsStderr, Context = []\<rparr>;
         f = f\<lparr>Flags := Flags f @ [Flag ''help'' ''h'' ''false''
               (''Gets help for '' @ Name f @ ''.'')]\<rparr>;
         (persistent, local) = SetupFlags action (PersistentFlags f) (Flags f);
         f = f\<lparr>PersistentFlags := persistent, Flags := local\<rparr>
     in \<lparr>command = Command f None,
         RunE = (\<lambda>env cmd args.
           (case createRootContext env (Context (state cmd)) cmd rootOptions of
              Panicked msg \<Rightarrow> (Panicked msg, [])
            | Returned (ctx, azdCtx, err) \<Rightarrow>
               (if err \<noteq> None then (Returned err, [])
                else
                  (let runCmd = (\<lambda>cmdCtx tr.
                         (Run action cmdCtx cmd args azdCtx, tr @ [ActionRun cmdCtx args azdCtx]))
                   in if DisableCmdUsageEvent buildOptions
                      then (case runCmd ctx [] of (e, tr) \<Rightarrow> (Returned e, tr))
                      else (case runCmdWithTelemetry env ctx cmd runCmd [] of
                              (e, tr) \<Rightarrow> (Returned e, tr))))))\<rparr>)"

text \<open>The names of the spans that a list of effects starts.\<close>

fun spanNames :: "Effect list \<Rightarrow> string list" where
  "spanNames [] = []"
| "spanNames (SpanStart n # es) = n # spanNames es"
| "spanNames (e # es) = spanNames es"


text \<open>
  The writer and the console in the context of a finished assembly, \<open>None\<close> when the
  assembly gave an error or panicked.
\<close>

definition registeredWriter ::
  "(Context \<times> AzdContext option \<times> error option) result \<Rightarrow> stream option" where
  "registeredWriter r = (case r of Returned (ctx, azdCtx, None) \<Rightarrow> GetWriter ctx | _ \<Rightarrow> None)"

definition registeredConsole ::
  "(Context \<times> AzdContext option \<times> error option) result \<Rightarrow> Console option" where
  "registeredConsole r = (case r of Returned (ctx, azdCtx, None) \<Rightarrow> GetConsole ctx | _ \<Rightarrow> None)"

subsection \<open>An example: \<open>azd deploy\<close>\<close>

text \<open>
  A process with a project and a credential, no variable set, both descriptors on a
  terminal; the formatter resolver knows the format \<open>json\<close> only. The theorems below are
  run on it.
\<close>

definition exampleEnv :: Env where
  "exampleEnv = \<lparr>NewAzdContext = Inr (AzdContext ''/src/app''),
     NewAzureCLICredential = Inr AzureCLICredential,
     GetCommandFormatter = (\<lambda>cmd. case map_of (flagValues (state cmd)) ''output'' of
         None \<Rightarrow> Inr None
       | Some v \<Rightarrow> if v = ''json'' then Inr (Some (Formatter ''json''))
                  else Inl (NewError ''unsupported format'')),
     environ = Map.empty, stdinIsTerminal = True, stdoutIsTerminal = True,
     GetCommandEventName = (\<lambda>p. ''cmd.'' @ p)\<rparr>"

definition noColorEnv :: "string \<Rightarrow> Env" where
  "noColorEnv v = exampleEnv\<lparr>environ := [''NO_COLOR'' \<mapsto> v]\<rparr>"

definition noCredentialEnv :: Env where
  "noCredentialEnv = exampleEnv\<lparr>NewAzureCLICredential := Inl (NewError ''az cli not found'')\<rparr>"

definition noProjectEnv :: Env where
  "noProjectEnv = exampleEnv\<lparr>NewAzdContext := Inl (NewError ''no project exists'')\<rparr>"

definition exampleOptions :: GlobalCommandOptions where
  "exampleOptions = \<lparr>EnableDebugLogging = False, EnableTelemetry = True, NoPrompt = False\<rparr>"

definition azdCmd :: Command where
  "azdCmd = Command \<lparr>Use = ''azd'', Short = [], Long = [], Aliases = [], Flags = [],
     PersistentFlags = [], flagValues = [], InOrStdin = OsStdin, OutOrStdout = OsStdout,
     ErrOrStderr = OsStderr, Context = []\<rparr> None"

text \<open>The command \<open>deploy\<close> under \<open>azd\<close>, with the flag values and the output stream given.\<close>

definition deployCmd :: "(string \<times> string) list \<Rightarrow> stream \<Rightarrow> Command" where
  "deployCmd vs out = Command \<lparr>Use = ''deploy [flags]'', Short = ''Deploys the app'', Long = [],
     Aliases = [], Flags = [], PersistentFlags = [], flagValues = vs, InOrStdin = OsStdin,
     OutOrStdout = out, ErrOrStderr = OsStderr, Context = []\<rparr> (Some azdCmd)"

definition failingAction :: Action where
  "failingAction = \<lparr>Run = (\<lambda>ctx cmd args azdCtx. Some (NewError ''deployment failed'')),
     SetupFlags = (\<lambda>persistent local. (persistent, local))\<rparr>"

definition disabledUsageEvent :: BuildOptions where
  "disabledUsageEvent =
    \<lparr>BuildOptions.Long = [], BuildOptions.Aliases = [], DisableCmdUsageEvent = True\<rparr>"

text \<open>The context that the assembly makes for \<open>deployCmd [] OsStdout\<close> in \<open>exampleEnv\<close>.\<close>

definition deployContext :: Context where
  "deployContext =
    [ConsoleValue (NewConsole True True (ConsoleHandles OsStdin OsStdout OsStderr) None),
     WriterValue ColorableStdout,
     AzCliValue (NewAzCli (NewAzCliArgs False True (NewCommandRunner OsStdin OsStdout OsStderr))),
     CredentialsValue AzureCLICredential,
     CommandRunnerValue (NewCommandRunner OsStdin OsStdout OsStderr),
     InstalledCheckCacheValue,
     CommandOptionsValue exampleOptions,
     AzdContextValue (AzdContext ''/src/app'')]"

section \<open>Properties\<close>

subsection \<open>Unfolding the three functions\<close>

lemmas With_defs = WithAzdContext_def WithCommandOptions_def WithInstalledCheckCache_def
  WithCommandRunner_def WithCredentials_def WithAzCli_def WithFormatter_def WithWriter_def
  WithConsole_def

lemmas example_defs = exampleEnv_def noColorEnv_def noCredentialEnv_def noProjectEnv_def
  exampleOptions_def azdCmd_def deployCmd_def failingAction_def disabledUsageEvent_def
  deployContext_def

lemma RunE_Build:
  "RunE (Build action rootOptions use short buildOptions) env cmd args =
    (case createRootContext env (Context (state cmd)) cmd rootOptions of
       Panicked msg \<Rightarrow> (Panicked msg, [])
     | Returned (ctx, azdCtx, err) \<Rightarrow>
        if err \<noteq> None then (Returned err, [])
        else if (case buildOptions of None \<Rightarrow> False | Some b \<Rightarrow> DisableCmdUsageEvent b)
        then (Returned (Run action ctx cmd args azdCtx), [ActionRun ctx args azdCtx])
        else (case runCmdWithTelemetry env ctx cmd
                (\<lambda>cmdCtx tr. (Run action cmdCtx cmd args azdCtx,
                   tr @ [ActionRun cmdCtx args azdCtx])) [] of
                (e, tr) \<Rightarrow> (Returned e, tr)))"
  by (simp add: Build_def Let_def split: option.splits prod.splits result.splits)

lemma runCmdWithTelemetry_action:
  "runCmdWithTelemetry env ctx cmd
      (\<lambda>cmdCtx tr. (Run action cmdCtx cmd args azdCtx, tr @ [ActionRun cmdCtx args azdCtx])) [] =
    (let n = GetCommandEventName env (CommandPath cmd); spanCtx = SpanValue n # ctx;
         err = Run action spanCtx cmd args azdCtx
     in (err, [SpanStart n, ActionRun spanCtx args azdCtx] @
              (if err \<noteq> None then [SpanSetStatus n codes_Error ''UnknownError''] else []) @
              [SpanEnd n]))"
  by (simp add: runCmdWithTelemetry_def TracerStart_def Let_def)

text \<open>The assembly succeeds exactly when its three fallible steps do, with this context.\<close>

lemma createRootContext_success:
  "createRootContext env ctx0 cmd rootOptions = Returned (ctx, azdCtx, None) \<longleftrightarrow>
    (\<exists>a opts c fmt. NewAzdContext env = Inr a \<and> rootOptions = Some opts \<and>
       NewAzureCLICredential env = Inr c \<and> GetCommandFormatter env cmd = Inr fmt \<and>
       azdCtx = Some a \<and>
       ctx = ConsoleValue (NewConsole (\<not> NoPrompt opts)
               (OutOrStdout (state cmd) = OsStdout \<and> InOrStdin (state cmd) = OsStdin \<and>
                stdinIsTerminal env \<and> stdoutIsTerminal env)
               (ConsoleHandles (InOrStdin (state cmd)) (OutOrStdout (state cmd))
                  (ErrOrStderr (state cmd)))
               fmt)
           # WriterValue (if Getenv env ''NO_COLOR'' \<noteq> []
                          then NonColorable (OutOrStdout (state cmd))
                          else if OutOrStdout (state cmd) = OsStdout then ColorableStdout
                          else OutOrStdout (state cmd))
           # (case fmt of None \<Rightarrow> [] | Some f \<Rightarrow> [FormatterValue f])
           @ [AzCliValue (NewAzCli (NewAzCliArgs (EnableDebugLogging opts) (EnableTelemetry opts)
                (NewCommandRunner (InOrStdin (state cmd)) (OutOrStdout (state cmd))
                   (ErrOrStderr (state cmd))))),
              CredentialsValue c,
              CommandRunnerValue (NewCommandRunner (InOrStdin (state cmd))
                (OutOrStdout (state cmd)) (ErrOrStderr (state cmd))),
              InstalledCheckCacheValue, CommandOptionsValue opts, AzdContextValue a] @ ctx0)"
  by (auto simp add: createRootContext_def Let_def With_defs split: sum.splits option.splits)

lemma createRootContext_writer:
  assumes "createRootContext env ctx0 cmd rootOptions = Returned (ctx, azdCtx, None)"
  shows "GetWriter ctx =
    Some (if Getenv env ''NO_COLOR'' \<noteq> [] then NonColorable (OutOrStdout (state cmd))
          else if OutOrStdout (state cmd) = OsStdout then ColorableStdout
          else OutOrStdout (state cmd))"
  using assms unfolding createRootContext_success by (elim exE conjE) simp

lemma createRootContext_console:
  assumes "createRootContext env ctx0 cmd rootOptions = Returned (ctx, azdCtx, None)"
  shows "map_option consoleIsTerminal (GetConsole ctx) =
    Some (OutOrStdout (state cmd) = OsStdout \<and> InOrStdin (state cmd) = OsStdin \<and>
          stdinIsTerminal env \<and> stdoutIsTerminal env)"
  using assms unfolding createRootContext_success by (elim exE conjE) simp

lemma Getenv_nonempty:
  "(Getenv env k \<noteq> []) = (\<exists>v. environ env k = Some v \<and> v \<noteq> [])"
  by (cases "environ env k") (simp_all add: Getenv_def)

lemma stream_neq_NonColorable: "w \<noteq> NonColorable w"
  by (induction w) auto

lemma UseChain_not_Nil: "UseChain c \<noteq> []"
  by (induction c rule: UseChain.induct) auto

lemma CommandPath_UseChain:
  "UseChain c1 = UseChain c2 \<Longrightarrow> CommandPath c1 = CommandPath c2"
proof (induction c1 arbitrary: c2 rule: CommandPath.induct)
  case (1 f)
  show ?case
  proof (cases c2 rule: CommandPath.cases)
    case (1 g)
    with "1.prems" show ?thesis by (simp add: Name_def)
  next
    case (2 g q)
    with "1.prems" have "UseChain q = []" by simp
    with UseChain_not_Nil [of q] show ?thesis by simp
  qed
next
  case (2 f p)
  show ?case
  proof (cases c2 rule: CommandPath.cases)
    case (1 g)
    with "2.prems" have "UseChain p = []" by simp
    with UseChain_not_Nil [of p] show ?thesis by simp
  next
    case (2 g q)
    with "2.prems" have "UseChain p = UseChain q" and "Use f = Use g" by auto
    with "2.IH" 2 show ?thesis by (simp add: Name_def)
  qed
qed

lemma spanNames_RunE:
  "n \<in> set (spanNames (snd (RunE (Build action rootOptions use short buildOptions) env cmd args)))
    \<Longrightarrow> n = GetCommandEventName env (CommandPath cmd)"
  by (auto simp: RunE_Build runCmdWithTelemetry_action Let_def
      split: result.splits option.splits if_splits prod.splits)

subsection \<open>The example evaluated\<close>

lemma deploy_assembled:
  "createRootContext exampleEnv (Context (state (deployCmd [] OsStdout))) (deployCmd [] OsStdout)
     (Some exampleOptions) = Returned (deployContext, Some (AzdContext ''/src/app''), None)"
  by (simp add: createRootContext_def example_defs With_defs Getenv_def Let_def)

lemma deploy_path: "CommandPath (deployCmd vs out) = ''azd deploy''"
  by (simp add: deployCmd_def azdCmd_def Name_def)

lemma deploy_event_name:
  "GetCommandEventName (exampleEnv\<lparr>environ := vars\<rparr>) (CommandPath (deployCmd vs out)) =
    ''cmd.azd deploy''"
  by (simp add: deploy_path exampleEnv_def)

lemma failingAction_Run:
  "Run failingAction ctx cmd args azdCtx = Some (NewError ''deployment failed'')"
  by (simp add: failingAction_def)

lemma example_assembles:
  "\<exists>ctx azdCtx. createRootContext (exampleEnv\<lparr>environ := vars\<rparr>) [] (deployCmd [] out)
     (Some exampleOptions) = Returned (ctx, azdCtx, None)"
  by (simp add: createRootContext_def exampleEnv_def deployCmd_def Let_def)

section \<open>The claims\<close>

subsection \<open>Errors of the action\<close>

text \<open>
  Claim C1. When the context is assembled and the action's \<open>Run\<close> returns the error \<open>e\<close>,
  the handler returns that same \<open>e\<close>, for every action and every build option (nil
  included). Without the usage event the only effect is the call of the action. With it,
  the action runs in the context of the span, and the effects are: the span starts, the
  action runs, the status of the span is set to \<open>codes.Error\<close> with \<open>UnknownError\<close>, the
  span ends.
\<close>

theorem action_error_returned_unchanged:
  assumes "createRootContext env (Context (state cmd)) cmd rootOptions =
    Returned (ctx, azdCtx, None)"
  shows "((case buildOptions of None \<Rightarrow> False | Some b \<Rightarrow> DisableCmdUsageEvent b) \<longrightarrow>
          Run action ctx cmd args azdCtx = Some e \<longrightarrow>
          RunE (Build action rootOptions use short buildOptions) env cmd args =
            (Returned (Some e), [ActionRun ctx args azdCtx])) \<and>
         (\<not> (case buildOptions of None \<Rightarrow> False | Some b \<Rightarrow> DisableCmdUsageEvent b) \<longrightarrow>
          Run action (SpanValue (GetCommandEventName env (CommandPath cmd)) # ctx) cmd args azdCtx
            = Some e \<longrightarrow>
          RunE (Build action rootOptions use short buildOptions) env cmd args =
            (Returned (Some e),
             [SpanStart (GetCommandEventName env (CommandPath cmd)),
              ActionRun (SpanValue (GetCommandEventName env (CommandPath cmd)) # ctx) args azdCtx,
              SpanSetStatus (GetCommandEventName env (CommandPath cmd)) codes_Error
                ''UnknownError'',
              SpanEnd (GetCommandEventName env (CommandPath cmd))]))"
  using assms by (simp add: RunE_Build runCmdWithTelemetry_action Let_def)

text \<open>The failing action under \<open>azd deploy\<close>, with the usage event and without it.\<close>

theorem action_error_returned_unchanged_witness:
  "RunE (Build failingAction (Some exampleOptions) ''deploy [flags]'' ''Deploys the app'' None)
     exampleEnv (deployCmd [] OsStdout) [''web''] =
     (Returned (Some (NewError ''deployment failed'')),
      [SpanStart ''cmd.azd deploy'',
       ActionRun (SpanValue ''cmd.azd deploy'' # deployContext) [''web'']
         (Some (AzdContext ''/src/app'')),
       SpanSetStatus ''cmd.azd deploy'' codes_Error ''UnknownError'',
       SpanEnd ''cmd.azd deploy'']) \<and>
   RunE (Build failingAction (Some exampleOptions) ''deploy [flags]'' ''Deploys the app''
       (Some disabledUsageEvent))
     exampleEnv (deployCmd [] OsStdout) [''web''] =
     (Returned (Some (NewError ''deployment failed'')),
      [ActionRun deployContext [''web''] (Some (AzdContext ''/src/app''))])"
proof -
  have n: "GetCommandEventName exampleEnv (CommandPath (deployCmd [] OsStdout)) = ''cmd.azd deploy''"
    by (simp add: deploy_path exampleEnv_def)
  have d: "DisableCmdUsageEvent disabledUsageEvent"
    by (simp add: disabledUsageEvent_def)
  show ?thesis
    using action_error_returned_unchanged [OF deploy_assembled,
        where buildOptions = None and action = failingAction and args = "[''web'']"
          and e = "NewError ''deployment failed''" and use = "''deploy [flags]''"
          and short = "''Deploys the app''"]
      action_error_returned_unchanged [OF deploy_assembled,
        where buildOptions = "Some disabledUsageEvent" and action = failingAction
          and args = "[''web'']" and e = "NewError ''deployment failed''"
          and use = "''deploy [flags]''" and short = "''Deploys the app''"]
    by (simp add: failingAction_Run n d)
qed

subsection \<open>Errors and panics of the assembly\<close>

text \<open>
  Claim C2. When \<open>createRootContext\<close> returns an error, the handler returns that error and
  has no effect: the action is not run and no span is started. An error of the formatter
  resolver (an output format it does not know) is such an error: when the azd context and
  the credential were made, the handler returns it and the process goes on.
\<close>

theorem assembly_error_returned_before_action:
  "(createRootContext env (Context (state cmd)) cmd rootOptions =
      Returned (ctx, azdCtx, Some e) \<longrightarrow>
      RunE (Build action rootOptions use short buildOptions) env cmd args =
        (Returned (Some e), [])) \<and>
   (NewAzdContext env = Inr a \<and> NewAzureCLICredential env = Inr c \<and>
    GetCommandFormatter env cmd = Inl e' \<longrightarrow>
      RunE (Build action (Some opts) use short buildOptions) env cmd args =
        (Returned (Some e'), []))"
  by (simp add: RunE_Build createRootContext_def Let_def)

text \<open>Outside a project, and with \<open>--output yaml\<close>.\<close>

theorem assembly_error_returned_before_action_witness:
  "RunE (Build failingAction (Some exampleOptions) ''deploy [flags]'' ''Deploys the app'' None)
     noProjectEnv (deployCmd [] OsStdout) [''web''] =
     (Returned (Some (Errorf_w ''creating context: '' (NewError ''no project exists''))), []) \<and>
   GetCommandFormatter exampleEnv (deployCmd [(''output'', ''yaml'')] OsStdout) =
     Inl (NewError ''unsupported format'') \<and>
   RunE (Build failingAction (Some exampleOptions) ''deploy [flags]'' ''Deploys the app'' None)
     exampleEnv (deployCmd [(''output'', ''yaml'')] OsStdout) [''web''] =
     (Returned (Some (NewError ''unsupported format'')), [])"
proof -
  have a: "createRootContext noProjectEnv (Context (state (deployCmd [] OsStdout)))
      (deployCmd [] OsStdout) (Some exampleOptions) =
      Returned ([], None, Some (Errorf_w ''creating context: '' (NewError ''no project exists'')))"
    by (simp add: createRootContext_def noProjectEnv_def exampleEnv_def deployCmd_def)
  have b: "NewAzdContext exampleEnv = Inr (AzdContext ''/src/app'') \<and>
      NewAzureCLICredential exampleEnv = Inr AzureCLICredential \<and>
      GetCommandFormatter exampleEnv (deployCmd [(''output'', ''yaml'')] OsStdout) =
        Inl (NewError ''unsupported format'')"
    by (simp add: exampleEnv_def deployCmd_def)
  show ?thesis
    using a b
      assembly_error_returned_before_action [where env = noProjectEnv
        and cmd = "deployCmd [] OsStdout" and rootOptions = "Some exampleOptions" and ctx = "[]"
        and azdCtx = None
        and e = "Errorf_w ''creating context: '' (NewError ''no project exists'')"
        and action = failingAction and use = "''deploy [flags]''"
        and short = "''Deploys the app''" and buildOptions = None and args = "[''web'']"]
      assembly_error_returned_before_action [where env = exampleEnv
        and cmd = "deployCmd [(''output'', ''yaml'')] OsStdout" and action = failingAction
        and use = "''deploy [flags]''" and short = "''Deploys the app''" and buildOptions = None
        and args = "[''web'']" and a = "AzdContext ''/src/app''" and c = AzureCLICredential
        and e' = "NewError ''unsupported format''" and opts = exampleOptions]
    by simp
qed

text \<open>
  Claim C3. When \<open>azidentity.NewAzureCLICredential\<close> is called (the azd context was made
  and \<open>rootOptions\<close> is not nil) and fails, \<open>createRootContext\<close> panics, and so does the
  handler, with no effect. The two other failures are returned as errors: that of
  \<open>NewAzdContext\<close>, wrapped by \<open>creating context:\<close>, and that of the formatter resolver,
  as it is. With \<open>rootOptions\<close> not nil, \<open>createRootContext\<close> panics only when the
  credential fails.
\<close>

theorem credential_failure_panics:
  "(NewAzdContext env = Inr a \<and> NewAzureCLICredential env = Inl e \<longrightarrow>
      createRootContext env ctx cmd (Some opts) =
        Panicked ''failed creating azure cli credential'' \<and>
      RunE (Build action (Some opts) use short buildOptions) env cmd args =
        (Panicked ''failed creating azure cli credential'', [])) \<and>
   (NewAzdContext env = Inl e \<longrightarrow>
      createRootContext env ctx cmd rootOptions =
        Returned (ctx, None, Some (Errorf_w ''creating context: '' e))) \<and>
   (NewAzdContext env = Inr a \<and> NewAzureCLICredential env = Inr c \<and>
    GetCommandFormatter env cmd = Inl e \<longrightarrow>
      (case createRootContext env ctx cmd (Some opts) of
         Returned (ctx', azdCtx, err) \<Rightarrow> azdCtx = None \<and> err = Some e
       | Panicked msg \<Rightarrow> False)) \<and>
   (createRootContext env ctx cmd (Some opts) = Panicked msg \<longrightarrow>
      (case NewAzureCLICredential env of Inl e \<Rightarrow> True | Inr c \<Rightarrow> False))"
  by (auto simp add: RunE_Build createRootContext_def Let_def split: sum.splits)

text \<open>Without the az CLI, outside a project, and with \<open>--output yaml\<close>.\<close>

theorem credential_failure_panics_witness:
  "RunE (Build failingAction (Some exampleOptions) ''deploy [flags]'' ''Deploys the app'' None)
     noCredentialEnv (deployCmd [] OsStdout) [''web''] =
     (Panicked ''failed creating azure cli credential'', []) \<and>
   createRootContext noProjectEnv [] (deployCmd [] OsStdout) (Some exampleOptions) =
     Returned ([], None, Some (Errorf_w ''creating context: '' (NewError ''no project exists''))) \<and>
   (case createRootContext exampleEnv [] (deployCmd [(''output'', ''yaml'')] OsStdout)
           (Some exampleOptions) of
      Returned (ctx', azdCtx, err) \<Rightarrow> azdCtx = None \<and> err = Some (NewError ''unsupported format'')
    | Panicked msg \<Rightarrow> False)"
proof -
  have a: "NewAzdContext noCredentialEnv = Inr (AzdContext ''/src/app'') \<and>
      NewAzureCLICredential noCredentialEnv = Inl (NewError ''az cli not found'')"
    by (simp add: noCredentialEnv_def exampleEnv_def)
  have b: "NewAzdContext noProjectEnv = Inl (NewError ''no project exists'')"
    by (simp add: noProjectEnv_def exampleEnv_def)
  have c: "NewAzdContext exampleEnv = Inr (AzdContext ''/src/app'') \<and>
      NewAzureCLICredential exampleEnv = Inr AzureCLICredential \<and>
      GetCommandFormatter exampleEnv (deployCmd [(''output'', ''yaml'')] OsStdout) =
        Inl (NewError ''unsupported format'')"
    by (simp add: exampleEnv_def deployCmd_def)
  show ?thesis
    using a b c
      credential_failure_panics [where env = noCredentialEnv
        and a = "AzdContext ''/src/app''" and e = "NewError ''az cli not found''"
        and ctx = "Context (state (deployCmd [] OsStdout))" and cmd = "deployCmd [] OsStdout"
        and opts = exampleOptions and action = failingAction and use = "''deploy [flags]''"
        and short = "''Deploys the app''" and buildOptions = None and args = "[''web'']"]
      credential_failure_panics [where env = noProjectEnv
        and e = "NewError ''no project exists''" and ctx = "[]"
        and cmd = "deployCmd [] OsStdout" and rootOptions = "Some exampleOptions"]
      credential_failure_panics [where env = exampleEnv
        and a = "AzdContext ''/src/app''" and c = AzureCLICredential
        and e = "NewError ''unsupported format''" and ctx = "[]"
        and cmd = "deployCmd [(''output'', ''yaml'')] OsStdout" and opts = exampleOptions]
    by simp
qed


subsection \<open>The span\<close>

text \<open>
  Claim C4. Take two invocations of a built command whose chains of \<open>Use\<close> members are
  the same, with any positional arguments, any flag values or streams on the command
  and any process around them. Every span that either starts carries the same name, the
  event name of the command path.
\<close>

theorem span_name_from_use_chain_only:
  assumes "UseChain cmd1 = UseChain cmd2"
    and "GetCommandEventName env1 = GetCommandEventName env2"
    and "n1 \<in> set (spanNames (snd
           (RunE (Build action rootOptions use short buildOptions) env1 cmd1 args1)))"
    and "n2 \<in> set (spanNames (snd
           (RunE (Build action rootOptions use short buildOptions) env2 cmd2 args2)))"
  shows "n1 = n2 \<and> n1 = GetCommandEventName env1 (CommandPath cmd1)"
proof -
  from assms(3) have "n1 = GetCommandEventName env1 (CommandPath cmd1)"
    by (rule spanNames_RunE)
  moreover from assms(4) have "n2 = GetCommandEventName env2 (CommandPath cmd2)"
    by (rule spanNames_RunE)
  moreover from assms(1) have "CommandPath cmd1 = CommandPath cmd2"
    by (rule CommandPath_UseChain)
  ultimately show ?thesis using assms(2) by simp
qed

text \<open>
  \<open>azd deploy web --output json\<close> on a terminal, and \<open>azd deploy api --force\<close> with
  \<open>NO_COLOR\<close> set and the output in another stream.
\<close>

theorem span_name_from_use_chain_only_witness:
  "UseChain (deployCmd [(''output'', ''json'')] OsStdout) = UseChain (deployCmd [] (OtherStream 7)) \<and>
   spanNames (snd (RunE (Build failingAction (Some exampleOptions) ''deploy [flags]''
       ''Deploys the app'' None) exampleEnv (deployCmd [(''output'', ''json'')] OsStdout) [''web'']))
     = [''cmd.azd deploy''] \<and>
   spanNames (snd (RunE (Build failingAction (Some exampleOptions) ''deploy [flags]''
       ''Deploys the app'' None) (noColorEnv ''1'') (deployCmd [] (OtherStream 7))
       [''api'', ''--force'']))
     = [''cmd.azd deploy'']"
proof -
  let ?b = "Build failingAction (Some exampleOptions) ''deploy [flags]'' ''Deploys the app'' None"
  have u: "UseChain (deployCmd [(''output'', ''json'')] OsStdout) =
      UseChain (deployCmd [] (OtherStream 7))"
    by (simp add: deployCmd_def)
  have g: "GetCommandEventName exampleEnv = GetCommandEventName (noColorEnv ''1'')"
    by (simp add: noColorEnv_def)
  have s1: "spanNames (snd (RunE ?b exampleEnv (deployCmd [(''output'', ''json'')] OsStdout)
      [''web''])) = [''cmd.azd deploy'']"
    by (simp add: RunE_Build runCmdWithTelemetry_def TracerStart_def createRootContext_def
        Let_def failingAction_def exampleEnv_def deployCmd_def azdCmd_def Name_def)
  have s2: "spanNames (snd (RunE ?b (noColorEnv ''1'') (deployCmd [] (OtherStream 7))
      [''api'', ''--force''])) = [''cmd.azd deploy'']"
    by (simp add: RunE_Build runCmdWithTelemetry_def TracerStart_def createRootContext_def
        Let_def failingAction_def noColorEnv_def exampleEnv_def deployCmd_def azdCmd_def Name_def)
  have m1: "''cmd.azd deploy'' \<in> set (spanNames (snd (RunE ?b exampleEnv
      (deployCmd [(''output'', ''json'')] OsStdout) [''web''])))"
    by (simp only: s1) simp
  have m2: "''cmd.azd deploy'' \<in> set (spanNames (snd (RunE ?b (noColorEnv ''1'')
      (deployCmd [] (OtherStream 7)) [''api'', ''--force''])))"
    by (simp only: s2) simp
  from span_name_from_use_chain_only [OF u g m1 m2] u s1 s2 show ?thesis by simp
qed

text \<open>
  Claim C5. A command built with \<open>DisableCmdUsageEvent\<close> set starts no span in any
  invocation. When the context is assembled, the only effect is the call of the action
  with that context, and the handler returns what the action returns.
\<close>

theorem disabled_usage_event_starts_no_span:
  assumes "DisableCmdUsageEvent b"
  shows "spanNames (snd (RunE (Build action rootOptions use short (Some b)) env cmd args)) = [] \<and>
    (createRootContext env (Context (state cmd)) cmd rootOptions = Returned (ctx, azdCtx, None)
      \<longrightarrow> RunE (Build action rootOptions use short (Some b)) env cmd args =
         (Returned (Run action ctx cmd args azdCtx), [ActionRun ctx args azdCtx]))"
  using assms by (auto simp: RunE_Build split: result.splits)

theorem disabled_usage_event_starts_no_span_witness:
  "DisableCmdUsageEvent disabledUsageEvent \<and>
   spanNames (snd (RunE (Build failingAction (Some exampleOptions) ''deploy [flags]''
       ''Deploys the app'' (Some disabledUsageEvent)) exampleEnv (deployCmd [] OsStdout) [''web'']))
     = [] \<and>
   RunE (Build failingAction (Some exampleOptions) ''deploy [flags]'' ''Deploys the app''
       (Some disabledUsageEvent)) exampleEnv (deployCmd [] OsStdout) [''web''] =
     (Returned (Some (NewError ''deployment failed'')),
      [ActionRun deployContext [''web''] (Some (AzdContext ''/src/app''))])"
proof -
  have d: "DisableCmdUsageEvent disabledUsageEvent"
    by (simp add: disabledUsageEvent_def)
  from disabled_usage_event_starts_no_span [OF d, where action = failingAction
      and rootOptions = "Some exampleOptions" and use = "''deploy [flags]''"
      and short = "''Deploys the app''" and env = exampleEnv and cmd = "deployCmd [] OsStdout"
      and args = "[''web'']" and ctx = deployContext and azdCtx = "Some (AzdContext ''/src/app'')"]
    d deploy_assembled
  show ?thesis by (simp add: failingAction_Run)
qed


subsection \<open>The writer\<close>

text \<open>
  Claim C6. When \<open>NO_COLOR\<close> is set to a value that is not empty and the context is
  assembled, the writer in the context is the colour-stripping wrapper around the
  output stream of the command, also when that stream is the stdout of the process. It
  is never the value of \<open>NewColorableStdout\<close>.
\<close>

theorem no_color_selects_stripping_writer:
  assumes "environ env ''NO_COLOR'' = Some v" and "v \<noteq> []"
    and "createRootContext env ctx0 cmd rootOptions = Returned (ctx, azdCtx, None)"
  shows "GetWriter ctx = Some (NonColorable (OutOrStdout (state cmd))) \<and>
         GetWriter ctx \<noteq> Some ColorableStdout"
  using createRootContext_writer [OF assms(3)] assms(1,2) by (simp add: Getenv_def)

text \<open>\<open>NO_COLOR=1\<close> with the output on the stdout of the process.\<close>

theorem no_color_selects_stripping_writer_witness:
  "environ (noColorEnv ''1'') ''NO_COLOR'' = Some ''1'' \<and>
   OutOrStdout (state (deployCmd [] OsStdout)) = OsStdout \<and>
   registeredWriter (createRootContext (noColorEnv ''1'') [] (deployCmd [] OsStdout)
     (Some exampleOptions)) = Some (NonColorable OsStdout)"
proof -
  have v: "environ (noColorEnv ''1'') ''NO_COLOR'' = Some ''1''" and n: "''1'' \<noteq> []"
    by (simp_all add: noColorEnv_def)
  from example_assembles [of "[''NO_COLOR'' \<mapsto> ''1'']" OsStdout]
  obtain ctx azdCtx where a: "createRootContext (noColorEnv ''1'') [] (deployCmd [] OsStdout)
      (Some exampleOptions) = Returned (ctx, azdCtx, None)"
    unfolding noColorEnv_def by blast
  have out: "OutOrStdout (state (deployCmd [] OsStdout)) = OsStdout"
    by (simp add: deployCmd_def)
  from no_color_selects_stripping_writer [OF v n a] v out show ?thesis
    by (simp add: a registeredWriter_def)
qed

text \<open>
  Claim C7. When \<open>NO_COLOR\<close> is not set and the context is assembled: if the output
  stream of the command is the stdout of the process, the writer in the context is the
  value of \<open>NewColorableStdout\<close>; if it is another stream, the writer is that stream,
  not wrapped.
\<close>

theorem writer_without_no_color:
  assumes "environ env ''NO_COLOR'' = None"
    and "createRootContext env ctx0 cmd rootOptions = Returned (ctx, azdCtx, None)"
  shows "(OutOrStdout (state cmd) = OsStdout \<longrightarrow> GetWriter ctx = Some ColorableStdout) \<and>
         (OutOrStdout (state cmd) \<noteq> OsStdout \<longrightarrow>
            GetWriter ctx = Some (OutOrStdout (state cmd)))"
  using createRootContext_writer [OF assms(2)] assms(1) by (simp add: Getenv_def)

text \<open>No variable set; the output on stdout, then in another stream.\<close>

theorem writer_without_no_color_witness:
  "environ exampleEnv ''NO_COLOR'' = None \<and>
   registeredWriter (createRootContext exampleEnv [] (deployCmd [] OsStdout)
     (Some exampleOptions)) = Some ColorableStdout \<and>
   registeredWriter (createRootContext exampleEnv [] (deployCmd [] (OtherStream 7))
     (Some exampleOptions)) = Some (OtherStream 7)"
proof -
  have v: "environ exampleEnv ''NO_COLOR'' = None"
    by (simp add: exampleEnv_def)
  have e: "exampleEnv\<lparr>environ := Map.empty\<rparr> = exampleEnv"
    by (simp add: exampleEnv_def)
  from example_assembles [of Map.empty OsStdout]
  obtain ctx azdCtx where a: "createRootContext exampleEnv [] (deployCmd [] OsStdout)
      (Some exampleOptions) = Returned (ctx, azdCtx, None)"
    unfolding e by blast
  from example_assembles [of Map.empty "OtherStream 7"]
  obtain ctx' azdCtx' where b: "createRootContext exampleEnv [] (deployCmd [] (OtherStream 7))
      (Some exampleOptions) = Returned (ctx', azdCtx', None)"
    unfolding e by blast
  have out: "OutOrStdout (state (deployCmd [] s)) = s" for s
    by (simp add: deployCmd_def)
  from writer_without_no_color [OF v a] writer_without_no_color [OF v b] v show ?thesis
    by (simp add: a b registeredWriter_def out)
qed

text \<open>
  Claim C8, as stated: \<open>NO_COLOR\<close> present with any value, the empty one included, selects
  the colour-stripping wrapper. The source tests \<open>os.Getenv("NO_COLOR") != ""\<close>, so a
  variable that is set to the empty string counts as not set: with the output on stdout
  the writer is then the value of \<open>NewColorableStdout\<close>.
\<close>

theorem empty_no_color_keeps_color:
  "environ (noColorEnv []) ''NO_COLOR'' = Some [] \<and>
   registeredWriter (createRootContext (noColorEnv []) [] (deployCmd [] OsStdout)
     (Some exampleOptions)) = Some ColorableStdout \<and>
   registeredWriter (createRootContext (noColorEnv []) [] (deployCmd [] OsStdout)
     (Some exampleOptions)) \<noteq> Some (NonColorable (OutOrStdout (state (deployCmd [] OsStdout))))"
  by (simp add: registeredWriter_def createRootContext_def Let_def With_defs Getenv_def
      noColorEnv_def exampleEnv_def deployCmd_def)

text \<open>
  Claim C8, amended. When the context is assembled, the writer in the context is the
  colour-stripping wrapper around the output stream of the command if and only if
  \<open>NO_COLOR\<close> is set to a value that is not empty.
\<close>

theorem stripping_writer_iff_no_color_not_empty:
  assumes "createRootContext env ctx0 cmd rootOptions = Returned (ctx, azdCtx, None)"
  shows "(GetWriter ctx = Some (NonColorable (OutOrStdout (state cmd)))) =
         (\<exists>v. environ env ''NO_COLOR'' = Some v \<and> v \<noteq> [])"
proof (cases "Getenv env ''NO_COLOR'' = []")
  case True
  with createRootContext_writer [OF assms]
  have "GetWriter ctx \<noteq> Some (NonColorable (OutOrStdout (state cmd)))"
    using stream_neq_NonColorable [of "OutOrStdout (state cmd)"] by simp
  with True show ?thesis
    using Getenv_nonempty [of env "''NO_COLOR''"] by simp
next
  case False
  with createRootContext_writer [OF assms]
  have "GetWriter ctx = Some (NonColorable (OutOrStdout (state cmd)))" by simp
  with False show ?thesis
    using Getenv_nonempty [of env "''NO_COLOR''"] by simp
qed

text \<open>\<open>NO_COLOR=true\<close> with the output in another stream.\<close>

theorem stripping_writer_iff_no_color_not_empty_witness:
  "environ (noColorEnv ''true'') ''NO_COLOR'' = Some ''true'' \<and>
   registeredWriter (createRootContext (noColorEnv ''true'') [] (deployCmd [] (OtherStream 7))
     (Some exampleOptions)) = Some (NonColorable (OtherStream 7))"
proof -
  have v: "environ (noColorEnv ''true'') ''NO_COLOR'' = Some ''true''"
    by (simp add: noColorEnv_def)
  from example_assembles [of "[''NO_COLOR'' \<mapsto> ''true'']" "OtherStream 7"]
  obtain ctx azdCtx where a: "createRootContext (noColorEnv ''true'') []
      (deployCmd [] (OtherStream 7)) (Some exampleOptions) = Returned (ctx, azdCtx, None)"
    unfolding noColorEnv_def by blast
  have out: "OutOrStdout (state (deployCmd [] (OtherStream 7))) = OtherStream 7"
    by (simp add: deployCmd_def)
  from stripping_writer_iff_no_color_not_empty [OF a] v show ?thesis
    by (simp add: a registeredWriter_def out)
qed

subsection \<open>The console\<close>

text \<open>
  Claim C9. When the context is assembled, the console in it was made with \<open>isTerminal\<close>
  true if and only if the input stream of the command is the stdin of the process, its
  output stream is the stdout of the process, and both descriptors are terminals. This
  is the second argument of \<open>input.NewConsole\<close>, what the spec calls the interactivity
  of the console; the first argument, the negated \<open>NoPrompt\<close>, does not depend on the
  streams.
\<close>

theorem console_isTerminal_iff:
  assumes "createRootContext env ctx0 cmd rootOptions = Returned (ctx, azdCtx, None)"
  shows "map_option consoleIsTerminal (GetConsole ctx) =
    Some (InOrStdin (state cmd) = OsStdin \<and> OutOrStdout (state cmd) = OsStdout \<and>
          stdinIsTerminal env \<and> stdoutIsTerminal env)"
  using createRootContext_console [OF assms] by (simp add: conj_commute conj_left_commute)

text \<open>On a terminal, and with the output in another stream.\<close>

theorem console_isTerminal_iff_witness:
  "map_option consoleIsTerminal (registeredConsole (createRootContext exampleEnv []
     (deployCmd [] OsStdout) (Some exampleOptions))) = Some True \<and>
   map_option consoleIsTerminal (registeredConsole (createRootContext exampleEnv []
     (deployCmd [] (OtherStream 7)) (Some exampleOptions))) = Some False"
proof -
  have e: "exampleEnv\<lparr>environ := Map.empty\<rparr> = exampleEnv"
    by (simp add: exampleEnv_def)
  from example_assembles [of Map.empty OsStdout]
  obtain ctx azdCtx where a: "createRootContext exampleEnv [] (deployCmd [] OsStdout)
      (Some exampleOptions) = Returned (ctx, azdCtx, None)"
    unfolding e by blast
  from example_assembles [of Map.empty "OtherStream 7"]
  obtain ctx' azdCtx' where b: "createRootContext exampleEnv [] (deployCmd [] (OtherStream 7))
      (Some exampleOptions) = Returned (ctx', azdCtx', None)"
    unfolding e by blast
  have streams: "OutOrStdout (state (deployCmd [] s)) = s"
    "InOrStdin (state (deployCmd [] s)) = OsStdin" for s
    by (simp_all add: deployCmd_def)
  have tty: "stdinIsTerminal exampleEnv" "stdoutIsTerminal exampleEnv"
    by (simp_all add: exampleEnv_def)
  from console_isTerminal_iff [OF a] console_isTerminal_iff [OF b] show ?thesis
    by (simp add: a b registeredConsole_def streams tty)
qed

subsection \<open>Nil build options\<close>

text \<open>
  Claim C10. \<open>Build\<close> with nil \<open>buildOptions\<close> gives the command and the handler that it
  gives with the zero \<open>BuildOptions\<close>: \<open>Long\<close> is empty and there are no aliases. The
  usage event is on: whenever the context is assembled, the handler starts the span
  named after the command path, runs the action in the context of that span, sets the
  status of the span when the action returns an error, ends the span, and returns what
  the action returned.
\<close>

theorem Build_nil_buildOptions:
  "Build action rootOptions use short None =
     Build action rootOptions use short
       (Some \<lparr>BuildOptions.Long = [], BuildOptions.Aliases = [], DisableCmdUsageEvent = False\<rparr>) \<and>
   Long (state (command (Build action rootOptions use short None))) = [] \<and>
   Aliases (state (command (Build action rootOptions use short None))) = [] \<and>
   (createRootContext env (Context (state cmd)) cmd rootOptions = Returned (ctx, azdCtx, None)
     \<longrightarrow>
     RunE (Build action rootOptions use short None) env cmd args =
       (Returned
          (Run action (SpanValue (GetCommandEventName env (CommandPath cmd)) # ctx) cmd args
             azdCtx),
        [SpanStart (GetCommandEventName env (CommandPath cmd)),
         ActionRun (SpanValue (GetCommandEventName env (CommandPath cmd)) # ctx) args azdCtx] @
        (if Run action (SpanValue (GetCommandEventName env (CommandPath cmd)) # ctx) cmd args
              azdCtx \<noteq> None
         then [SpanSetStatus (GetCommandEventName env (CommandPath cmd)) codes_Error
                 ''UnknownError'']
         else []) @
        [SpanEnd (GetCommandEventName env (CommandPath cmd))]))"
proof -
  have "Build action rootOptions use short None =
     Build action rootOptions use short
       (Some \<lparr>BuildOptions.Long = [], BuildOptions.Aliases = [], DisableCmdUsageEvent = False\<rparr>)"
    by (simp add: Build_def)
  moreover have "Long (state (command (Build action rootOptions use short None))) = []"
    by (simp add: Build_def Let_def split: prod.splits)
  moreover have "Aliases (state (command (Build action rootOptions use short None))) = []"
    by (simp add: Build_def Let_def split: prod.splits)
  moreover have
    "createRootContext env (Context (state cmd)) cmd rootOptions = Returned (ctx, azdCtx, None)
     \<longrightarrow>
     RunE (Build action rootOptions use short None) env cmd args =
       (Returned
          (Run action (SpanValue (GetCommandEventName env (CommandPath cmd)) # ctx) cmd args
             azdCtx),
        [SpanStart (GetCommandEventName env (CommandPath cmd)),
         ActionRun (SpanValue (GetCommandEventName env (CommandPath cmd)) # ctx) args azdCtx] @
        (if Run action (SpanValue (GetCommandEventName env (CommandPath cmd)) # ctx) cmd args
              azdCtx \<noteq> None
         then [SpanSetStatus (GetCommandEventName env (CommandPath cmd)) codes_Error
                 ''UnknownError'']
         else []) @
        [SpanEnd (GetCommandEventName env (CommandPath cmd))])"
    by (simp add: RunE_Build runCmdWithTelemetry_action Let_def)
  ultimately show ?thesis by (intro conjI)
qed

text \<open>
  \<open>azd deploy web\<close> built with nil options: the failing action runs inside the span
  \<open>cmd.azd deploy\<close>, and its error is returned.
\<close>

theorem Build_nil_buildOptions_witness:
  "Long (state (command (Build failingAction (Some exampleOptions) ''deploy [flags]''
     ''Deploys the app'' None))) = [] \<and>
   Aliases (state (command (Build failingAction (Some exampleOptions) ''deploy [flags]''
     ''Deploys the app'' None))) = [] \<and>
   Flags (state (command (Build failingAction (Some exampleOptions) ''deploy [flags]''
     ''Deploys the app'' None))) = [Flag ''help'' ''h'' ''false'' ''Gets help for deploy.''] \<and>
   createRootContext exampleEnv (Context (state (deployCmd [] OsStdout))) (deployCmd [] OsStdout)
     (Some exampleOptions) = Returned (deployContext, Some (AzdContext ''/src/app''), None) \<and>
   RunE (Build failingAction (Some exampleOptions) ''deploy [flags]'' ''Deploys the app'' None)
     exampleEnv (deployCmd [] OsStdout) [''web''] =
     (Returned (Some (NewError ''deployment failed'')),
      [SpanStart ''cmd.azd deploy'',
       ActionRun (SpanValue ''cmd.azd deploy'' # deployContext) [''web'']
         (Some (AzdContext ''/src/app'')),
       SpanSetStatus ''cmd.azd deploy'' codes_Error ''UnknownError'',
       SpanEnd ''cmd.azd deploy''])"
proof -
  have f: "Flags (state (command (Build failingAction (Some exampleOptions) ''deploy [flags]''
     ''Deploys the app'' None))) = [Flag ''help'' ''h'' ''false'' ''Gets help for deploy.'']"
    by (simp add: Build_def Let_def failingAction_def Name_def)
  have n: "GetCommandEventName exampleEnv (CommandPath (deployCmd [] OsStdout)) = ''cmd.azd deploy''"
    by (simp add: deploy_path exampleEnv_def)
  note nil = Build_nil_buildOptions [where action = failingAction
      and rootOptions = "Some exampleOptions" and use = "''deploy [flags]''"
      and short = "''Deploys the app''" and env = exampleEnv and cmd = "deployCmd [] OsStdout"
      and args = "[''web'']" and ctx = deployContext and azdCtx = "Some (AzdContext ''/src/app'')"]
  from nil have l: "Long (state (command (Build failingAction (Some exampleOptions)
      ''deploy [flags]'' ''Deploys the app'' None))) = []"
    by (elim conjE)
  from nil have a: "Aliases (state (command (Build failingAction (Some exampleOptions)
      ''deploy [flags]'' ''Deploys the app'' None))) = []"
    by (elim conjE)
  from nil have "createRootContext exampleEnv (Context (state (deployCmd [] OsStdout)))
      (deployCmd [] OsStdout) (Some exampleOptions) =
        Returned (deployContext, Some (AzdContext ''/src/app''), None) \<longrightarrow>
      RunE (Build failingAction (Some exampleOptions) ''deploy [flags]'' ''Deploys the app'' None)
        exampleEnv (deployCmd [] OsStdout) [''web''] =
      (Returned (Some (NewError ''deployment failed'')),
       [SpanStart ''cmd.azd deploy'',
        ActionRun (SpanValue ''cmd.azd deploy'' # deployContext) [''web'']
          (Some (AzdContext ''/src/app'')),
        SpanSetStatus ''cmd.azd deploy'' codes_Error ''UnknownError'',
        SpanEnd ''cmd.azd deploy''])"
    by (elim conjE) (simp add: failingAction_Run n)
  with deploy_assembled
  have r: "RunE (Build failingAction (Some exampleOptions) ''deploy [flags]'' ''Deploys the app''
      None) exampleEnv (deployCmd [] OsStdout) [''web''] =
      (Returned (Some (NewError ''deployment failed'')),
       [SpanStart ''cmd.azd deploy'',
        ActionRun (SpanValue ''cmd.azd deploy'' # deployContext) [''web'']
          (Some (AzdContext ''/src/app'')),
        SpanSetStatus ''cmd.azd deploy'' codes_Error ''UnknownError'',
        SpanEnd ''cmd.azd deploy''])"
    by (rule rev_mp)
  from l a f deploy_assembled r show ?thesis by (intro conjI)
qed

end
